theory Spec2Isabelle
  imports Main "HOL-Library.Word"
begin

unbundle bit_operations_syntax

section \<open>Library functions the engine calls\<close>

subsection \<open>The MD5 digest (\<open>hashlib.md5\<close>, RFC 1321)\<close>

text \<open>
  The engine names jobs and renames targets with \<open>hashlib.md5(...).hexdigest()\<close>.
  The digest is modelled in full, on 32-bit words: padding, the 64 steps of each
  512-bit block, and the lower-case hexadecimal rendering of the 16 result bytes.
  A Python \<open>bytes\<close> object is a \<open>string\<close> here (every \<open>char\<close> is one byte).
\<close>

type_synonym u8 = "8 word"
type_synonym u32 = "32 word"

definition md5_s :: "nat list" where
  "md5_s = [7, 12, 17, 22, 7, 12, 17, 22, 7, 12, 17, 22, 7, 12, 17, 22,
            5, 9, 14, 20, 5, 9, 14, 20, 5, 9, 14, 20, 5, 9, 14, 20,
            4, 11, 16, 23, 4, 11, 16, 23, 4, 11, 16, 23, 4, 11, 16, 23,
            6, 10, 15, 21, 6, 10, 15, 21, 6, 10, 15, 21, 6, 10, 15, 21]"

definition md5_K :: "u32 list" where
  "md5_K = [0xd76aa478, 0xe8c7b756, 0x242070db, 0xc1bdceee,
            0xf57c0faf, 0x4787c62a, 0xa8304613, 0xfd469501,
            0x698098d8, 0x8b44f7af, 0xffff5bb1, 0x895cd7be,
            0x6b901122, 0xfd987193, 0xa679438e, 0x49b40821,
            0xf61e2562, 0xc040b340, 0x265e5a51, 0xe9b6c7aa,
            0xd62f105d, 0x02441453, 0xd8a1e681, 0xe7d3fbc8,
            0x21e1cde6, 0xc33707d6, 0xf4d50d87, 0x455a14ed,
            0xa9e3e905, 0xfcefa3f8, 0x676f02d9, 0x8d2a4c8a,
            0xfffa3942, 0x8771f681, 0x6d9d6122, 0xfde5380c,
            0xa4beea44, 0x4bdecfa9, 0xf6bb4b60, 0xbebfbc70,
            0x289b7ec6, 0xeaa127fa, 0xd4ef3085, 0x04881d05,
            0xd9d4d039, 0xe6db99e5, 0x1fa27cf8, 0xc4ac5665,
            0xf4292244, 0x432aff97, 0xab9423a7, 0xfc93a039,
            0x655b59c3, 0x8f0ccc92, 0xffeff47d, 0x85845dd1,
            0x6fa87e4f, 0xfe2ce6e0, 0xa3014314, 0x4e0811a1,
            0xf7537e82, 0xbd3af235, 0x2ad7d2bb, 0xeb86d391]"

type_synonym md5_state = "u32 \<times> u32 \<times> u32 \<times> u32"

definition md5_init :: md5_state where
  "md5_init = (0x67452301, 0xefcdab89, 0x98badcfe, 0x10325476)"

fun md5_step :: "u32 list \<Rightarrow> md5_state \<Rightarrow> nat \<Rightarrow> md5_state" where
  "md5_step m (a, b, c, d) i =
     (let (f, g) =
            (if i < 16 then ((b AND c) OR (NOT b AND d), i)
             else if i < 32 then ((d AND b) OR (NOT d AND c), (5 * i + 1) mod 16)
             else if i < 48 then (b XOR c XOR d, (3 * i + 5) mod 16)
             else (c XOR (b OR NOT d), (7 * i) mod 16));
          f' = f + a + md5_K ! i + m ! g
      in (d, b + word_rotl (md5_s ! i) f', b, c))"

definition le_word :: "u8 list \<Rightarrow> u32" where
  "le_word bs = foldr (\<lambda>b acc. ucast b + 256 * acc) bs 0"

definition le_bytes :: "nat \<Rightarrow> 'a::len word \<Rightarrow> u8 list" where
  "le_bytes n w = map (\<lambda>k. ucast (drop_bit (8 * k) w)) [0..<n]"

function chunks :: "nat \<Rightarrow> 'a list \<Rightarrow> 'a list list" where
  "chunks n xs = (if n = 0 \<or> xs = [] then [] else take n xs # chunks n (drop n xs))"
  by pat_completeness auto
termination
  by (relation "measure (\<lambda>(n, xs). length xs)") auto

declare chunks.simps [simp del]

definition md5_block :: "md5_state \<Rightarrow> u8 list \<Rightarrow> md5_state" where
  "md5_block st blk =
     (let m = map le_word (chunks 4 blk);
          (a0, b0, c0, d0) = st;
          (a, b, c, d) = foldl (md5_step m) st [0..<64]
      in (a0 + a, b0 + b, c0 + c, d0 + d))"

definition md5_pad :: "u8 list \<Rightarrow> u8 list" where
  "md5_pad msg =
     msg @ [0x80] @ replicate ((119 - length msg mod 64) mod 64) 0
         @ le_bytes 8 (of_nat (8 * length msg) :: 64 word)"

definition md5_digest :: "u8 list \<Rightarrow> u8 list" where
  "md5_digest msg =
     (let (a, b, c, d) = foldl md5_block md5_init (chunks 64 (md5_pad msg))
      in concat (map (le_bytes 4) [a, b, c, d]))"

definition hex_digit :: "nat \<Rightarrow> char" where
  "hex_digit n = ''0123456789abcdef'' ! (n mod 16)"

definition hex_byte :: "u8 \<Rightarrow> string" where
  "hex_byte b = [hex_digit (unat b div 16), hex_digit (unat b)]"

definition md5_hexdigest :: "string \<Rightarrow> string" where
  "md5_hexdigest s = concat (map hex_byte (md5_digest (map (\<lambda>c. of_nat (of_char c)) s)))"

definition is_hex_char :: "char \<Rightarrow> bool" where
  "is_hex_char c = (c \<in> set ''0123456789abcdef'')"

subsection \<open>Python strings\<close>

text \<open>\<open>sep.join(xs)\<close>.\<close>

fun str_join :: "string \<Rightarrow> string list \<Rightarrow> string" where
  "str_join sep [] = []"
| "str_join sep [x] = x"
| "str_join sep (x # y # ys) = x @ sep @ str_join sep (y # ys)"

text \<open>\<open>s.split(c)\<close> for a separator of one character: never an empty list.\<close>

fun str_split :: "char \<Rightarrow> string \<Rightarrow> string list" where
  "str_split sep [] = [[]]"
| "str_split sep (c # cs) =
     (if c = sep then [] # str_split sep cs
      else (case str_split sep cs of
              [] \<Rightarrow> [[c]]
            | w # ws \<Rightarrow> (c # w) # ws))"

text \<open>
  \<open>s.replace(old, new)\<close>: the occurrences of \<open>old\<close> are found from the left and do
  not overlap. For an empty \<open>old\<close> Python puts \<open>new\<close> before every character and at
  the end.
\<close>

function str_replace :: "string \<Rightarrow> string \<Rightarrow> string \<Rightarrow> string" where
  "str_replace old new s =
     (if old = [] then new @ concat (map (\<lambda>c. c # new) s)
      else if s = [] then []
      else if take (length old) s = old then new @ str_replace old new (drop (length old) s)
      else hd s # str_replace old new (tl s))"
  by pat_completeness auto
termination
  by (relation "measure (\<lambda>(old, new, s). length s)") auto

declare str_replace.simps [simp del]

text \<open>The ASCII whitespace that \<open>bytes.strip()\<close> removes at both ends.\<close>

definition py_isspace :: "char \<Rightarrow> bool" where
  "py_isspace c = (c \<in> set [CHR 0x20, CHR 0x09, CHR 0x0A, CHR 0x0D, CHR 0x0B, CHR 0x0C])"

definition strip :: "string \<Rightarrow> string" where
  "strip s = rev (dropWhile py_isspace (rev (dropWhile py_isspace s)))"

text \<open>\<open>ext.lstrip(".")\<close>.\<close>

definition lstrip_dot :: "string \<Rightarrow> string" where
  "lstrip_dot s = dropWhile (\<lambda>c. c = CHR ''.'') s"

text \<open>\<open>s.rfind(c)\<close>: the index of the last \<open>c\<close>, or \<open>-1\<close>.\<close>

fun rfind_from :: "char \<Rightarrow> string \<Rightarrow> int \<Rightarrow> int \<Rightarrow> int" where
  "rfind_from c [] i found = found"
| "rfind_from c (x # xs) i found = rfind_from c xs (i + 1) (if x = c then i else found)"

definition rfind :: "char \<Rightarrow> string \<Rightarrow> int" where
  "rfind c s = rfind_from c s 0 (-1)"

subsection \<open>Errors\<close>

datatype error =
    KeyError string
  | IndexError
  | ValueError
  | UnicodeDecodeError
  | UnknownTargetType

subsection \<open>\<open>int(...)\<close> on a stripped byte string\<close>

text \<open>
  Base 10: an optional sign, then decimal digits, where single underscores may stand
  between digits. Anything else raises \<open>ValueError\<close>. (CPython's configurable limit
  on the number of digits is not part of the model.)
\<close>

definition is_digit :: "char \<Rightarrow> bool" where
  "is_digit c = (48 \<le> (of_char c :: nat) \<and> (of_char c :: nat) \<le> 57)"

definition digit_val :: "char \<Rightarrow> int" where
  "digit_val c = int (of_char c) - 48"

fun digits_ok :: "char \<Rightarrow> string \<Rightarrow> bool" where
  "digits_ok prev [] = (prev \<noteq> CHR ''_'')"
| "digits_ok prev (c # cs) =
     (if c = CHR ''_'' then prev \<noteq> CHR ''_'' \<and> digits_ok c cs
      else is_digit c \<and> digits_ok c cs)"

definition digits_value :: "string \<Rightarrow> int" where
  "digits_value s = foldl (\<lambda>acc c. if c = CHR ''_'' then acc else 10 * acc + digit_val c) 0 s"

definition py_int :: "string \<Rightarrow> error + int" where
  "py_int s =
     (let (sgn, body) =
            (case s of
               [] \<Rightarrow> (1, s)
             | c # r \<Rightarrow> if c = CHR ''+'' then (1, r)
                        else if c = CHR ''-'' then (-1, r) else (1, s))
      in case body of
           [] \<Rightarrow> Inl ValueError
         | c # r \<Rightarrow>
             if c \<noteq> CHR ''_'' \<and> digits_ok (CHR 0x00) body then Inr (sgn * digits_value body)
             else Inl ValueError)"

subsection \<open>\<open>bytes.decode()\<close>\<close>

text \<open>
  The strict UTF-8 decoder accepts exactly the well-formed byte sequences (no overlong
  forms, no surrogates, nothing above U+10FFFF). The text stays a byte string in the
  model, so a successful decoding returns its argument.
\<close>

definition utf8_cont :: "nat \<Rightarrow> bool" where
  "utf8_cont b = (0x80 \<le> b \<and> b \<le> 0xBF)"

fun utf8_valid :: "nat list \<Rightarrow> bool" where
  "utf8_valid [] = True"
| "utf8_valid (b # bs) =
     (if b < 0x80 then utf8_valid bs
      else if 0xC2 \<le> b \<and> b \<le> 0xDF then
        (case bs of c1 # r \<Rightarrow> utf8_cont c1 \<and> utf8_valid r | _ \<Rightarrow> False)
      else if 0xE0 \<le> b \<and> b \<le> 0xEF then
        (case bs of
           c1 # c2 # r \<Rightarrow>
             (if b = 0xE0 then 0xA0 \<le> c1 \<and> c1 \<le> 0xBF
              else if b = 0xED then 0x80 \<le> c1 \<and> c1 \<le> 0x9F
              else utf8_cont c1) \<and> utf8_cont c2 \<and> utf8_valid r
         | _ \<Rightarrow> False)
      else if 0xF0 \<le> b \<and> b \<le> 0xF4 then
        (case bs of
           c1 # c2 # c3 # r \<Rightarrow>
             (if b = 0xF0 then 0x90 \<le> c1 \<and> c1 \<le> 0xBF
              else if b = 0xF4 then 0x80 \<le> c1 \<and> c1 \<le> 0x8F
              else utf8_cont c1) \<and> utf8_cont c2 \<and> utf8_cont c3 \<and> utf8_valid r
         | _ \<Rightarrow> False)
      else False)"

definition decode :: "string \<Rightarrow> error + string" where
  "decode s = (if utf8_valid (map of_char s) then Inr s else Inl UnicodeDecodeError)"

subsection \<open>\<open>os.path\<close> (POSIX)\<close>

text \<open>
  \<open>os.path.splitext\<close>: the extension starts at the last dot of the last path
  component, unless only dots stand before it in that component.
\<close>

function splitext_loop :: "string \<Rightarrow> nat \<Rightarrow> nat \<Rightarrow> string \<times> string" where
  "splitext_loop p filenameIndex dotIndex =
     (if filenameIndex < dotIndex then
        (if take 1 (drop filenameIndex p) \<noteq> ''.'' then (take dotIndex p, drop dotIndex p)
         else splitext_loop p (filenameIndex + 1) dotIndex)
      else (p, []))"
  by pat_completeness auto
termination
  by (relation "measure (\<lambda>(p, i, d). d - i)") auto

declare splitext_loop.simps [simp del]

definition splitext :: "string \<Rightarrow> string \<times> string" where
  "splitext p =
     (let sepIndex = rfind CHR ''/'' p;
          dotIndex = rfind CHR ''.'' p
      in if dotIndex > sepIndex then splitext_loop p (nat (sepIndex + 1)) (nat dotIndex)
         else (p, []))"

text \<open>\<open>os.path.join(a, b)\<close>.\<close>

definition path_join :: "string \<Rightarrow> string \<Rightarrow> string" where
  "path_join a b =
     (if take 1 b = ''/'' then b
      else if a = [] \<or> last a = CHR ''/'' then a @ b
      else a @ ''/'' @ b)"

section \<open>The data model\<close>

text \<open>
  A node of the host build graph: its kind and its absolute path. \<open>Entry\<close> stands for
  every node that is neither a \<open>SCons.Node.FS.File\<close> nor a \<open>SCons.Node.FS.Dir\<close>.
  The host keeps one node per kind and path, so a node is identified by this record,
  and \<open>env.File(p)\<close>, \<open>env.Dir(p)\<close> for an absolute \<open>p\<close> are the records built
  in \<open>rename_targets\<close> below.
\<close>

datatype node_kind = File | Dir | Entry

record node =
  kind :: node_kind
  abspath :: string

text \<open>
  The tag store of the nodes (\<open>t.Tag(key, value)\<close>, \<open>s.GetTag(key)\<close>): the values
  stored by this module are job identifiers, Python integers. \<open>GetTag\<close> returns
  \<open>None\<close> for a key that was never set.
\<close>

type_synonym tag_store = "node \<Rightarrow> string \<rightharpoonup> int"

definition GetTag :: "tag_store \<Rightarrow> node \<Rightarrow> string \<Rightarrow> int option" where
  "GetTag st n key = st n key"

definition Tag :: "tag_store \<Rightarrow> node \<Rightarrow> string \<Rightarrow> int \<Rightarrow> tag_store" where
  "Tag st n key v = st(n := (st n)(key \<mapsto> v))"

text \<open>A construction environment and \<open>os.environ\<close>: variables and their values.\<close>

type_synonym environment = "string \<rightharpoonup> string"

text \<open>
  The mutable state the module works on: the tags of the nodes, the instance attribute
  \<open>pseudo_id\<close> of every engine object that has one (engine objects are numbered), the
  files written, and the dependencies registered with \<open>env.Depends\<close>.
\<close>

record world =
  tags :: tag_store
  inst_pseudo_id :: "nat \<rightharpoonup> int"
  files :: "string \<rightharpoonup> string"
  depends :: "(node \<times> string) list"

text \<open>
  What \<open>submit\<close> overrides in the environment before it renders the submission
  string.
\<close>

record overrides =
  STEAMROLLER_NAME :: string
  STEAMROLLER_LOG :: string
  STEAMROLLER_WORKING_DIRECTORY :: string
  STEAMROLLER_DEPENDENCIES :: "int set"
  STEAMROLLER_SUBMIT_STRING :: string

text \<open>
  The services of the host build system and of the operating system, which the module
  calls and does not define: the substitution of one command into its escaped
  arguments (\<open>env.subst_list\<close> and \<open>escape_list\<close>), the rendering of the submission
  string in the overridden environment (\<open>renv.subst\<close>), the standard output of the
  process started from a command line with a given standard input (\<open>shlex.split\<close>,
  \<open>Popen\<close> and \<open>communicate\<close>), \<open>env.Dir(d).abspath\<close>, \<open>os.getcwd()\<close> and
  \<open>os.path.exists\<close>.
\<close>

record host =
  subst_args :: "node list \<Rightarrow> node list \<Rightarrow> environment \<Rightarrow> string \<Rightarrow> string list"
  subst_submit :: "environment \<Rightarrow> overrides \<Rightarrow> string"
  communicate :: "string \<Rightarrow> string \<Rightarrow> string"
  dir_abspath :: "string \<Rightarrow> string"
  getcwd :: string
  path_exists :: "string \<Rightarrow> bool"

section \<open>The module's functions\<close>

definition prepare_commands ::
  "host \<Rightarrow> node list \<Rightarrow> node list \<Rightarrow> environment \<Rightarrow> string list \<Rightarrow> string list" where
  "prepare_commands h target source env commands =
     map (\<lambda>c. str_join '' '' (subst_args h target source env c)) commands"

definition create_name :: "node list \<Rightarrow> node list \<Rightarrow> environment \<Rightarrow> error + string" where
  "create_name target source env =
     (let m = md5_hexdigest (str_join '' '' (map abspath target @ map abspath source))
      in case env ''STEAMROLLER_NAME_PREFIX'' of
           None \<Rightarrow> Inl (KeyError ''STEAMROLLER_NAME_PREFIX'')
         | Some prefix \<Rightarrow> Inr (prefix @ ''_'' @ m))"

definition submit ::
  "host \<Rightarrow> string \<Rightarrow> node list \<Rightarrow> node list \<Rightarrow> environment \<Rightarrow> string list \<Rightarrow> int set
     \<Rightarrow> string \<Rightarrow> error + int" where
  "submit h submit_string target source env commands dependencies working_dir =
     (case create_name target source env of
        Inl e \<Rightarrow> Inl e
      | Inr name \<Rightarrow>
          (case target of
             [] \<Rightarrow> Inl IndexError
           | t0 # ts \<Rightarrow>
               (let log_file = abspath t0 @ ''.log'';
                    renv = \<lparr>STEAMROLLER_NAME = name,
                            STEAMROLLER_LOG = log_file,
                            STEAMROLLER_WORKING_DIRECTORY = working_dir,
                            STEAMROLLER_DEPENDENCIES = dependencies,
                            STEAMROLLER_SUBMIT_STRING = submit_string\<rparr>;
                    submit_string' = subst_submit h env renv
                in case env ''STEAMROLLER_SHELL'' of
                     None \<Rightarrow> Inl (KeyError ''STEAMROLLER_SHELL'')
                   | Some shell \<Rightarrow>
                       py_int (strip (communicate h submit_string'
                                        (str_join [CHR 0x0A] (shell # commands)))))))"

text \<open>
  \<open>set(filter(lambda x : x != None, [s.GetTag(key) for s in source]))\<close>; what passes
  the filter is a value, which \<open>the\<close> unwraps.
\<close>

definition depends_on :: "tag_store \<Rightarrow> string \<Rightarrow> node list \<Rightarrow> int set" where
  "depends_on st key source =
     set (map the (filter (\<lambda>x. x \<noteq> None) (map (\<lambda>s. GetTag st s key) source)))"

definition tag_all :: "tag_store \<Rightarrow> node list \<Rightarrow> string \<Rightarrow> int \<Rightarrow> tag_store" where
  "tag_all st target key job_id = foldl (\<lambda>st' t. Tag st' t key job_id) st target"

text \<open>
  The function \<open>method\<close> that \<open>create_method\<close> returns, applied to a rule in a world.
  \<open>chdir\<close> is \<open>None\<close> or a string; the empty string is false in \<open>if chdir\<close>.
\<close>

definition create_method ::
  "host \<Rightarrow> (node list \<Rightarrow> node list \<Rightarrow> environment \<Rightarrow> bool \<Rightarrow> string list) \<Rightarrow> string option
     \<Rightarrow> string \<Rightarrow> node list \<Rightarrow> node list \<Rightarrow> environment \<Rightarrow> world
     \<Rightarrow> (error + unit) \<times> world" where
  "create_method h generator chdir submit_string target source env w =
     (let commands = prepare_commands h target source env (generator target source env False);
          nchdir = (case chdir of
                      None \<Rightarrow> getcwd h
                    | Some d \<Rightarrow> if d = [] then getcwd h else dir_abspath h d);
          deps = depends_on (tags w) ''built_by_job'' source
      in case submit h submit_string target source env commands deps nchdir of
           Inl e \<Rightarrow> (Inl e, w)
         | Inr job_id \<Rightarrow>
             (Inr (), w\<lparr>tags := tag_all (tags w) target ''built_by_job'' job_id\<rparr>))"

subsection \<open>The class \<open>GridEngine\<close>\<close>

text \<open>The class attribute \<open>pseudo_id = 0\<close>, which no code assigns.\<close>

definition class_pseudo_id :: int where
  "class_pseudo_id = 0"

text \<open>
  Reading \<open>self.pseudo_id\<close> finds the instance attribute, else the class attribute.
  \<open>self.pseudo_id += 1\<close> reads it so and assigns the instance attribute.
\<close>

definition get_pseudo_id :: "world \<Rightarrow> nat \<Rightarrow> int" where
  "get_pseudo_id w self = (case inst_pseudo_id w self of None \<Rightarrow> class_pseudo_id | Some v \<Rightarrow> v)"

definition check_for_executable :: "host \<Rightarrow> environment \<Rightarrow> string \<Rightarrow> error + bool" where
  "check_for_executable h environ name =
     (case environ ''PATH'' of
        None \<Rightarrow> Inl (KeyError ''PATH'')
      | Some v \<Rightarrow>
          Inr (list_ex (\<lambda>b. b) (map (\<lambda>p. path_exists h (path_join p name))
                                     (str_split CHR '':'' v))))"

definition GridEngine_create_name ::
  "node list \<Rightarrow> node list \<Rightarrow> environment \<Rightarrow> error + string" where
  "GridEngine_create_name target source env =
     (let m = md5_hexdigest (str_join '' '' (map abspath target @ map abspath source))
      in case env ''STEAMROLLER_NAME_PREFIX'' of
           None \<Rightarrow> Inl (KeyError ''STEAMROLLER_NAME_PREFIX'')
         | Some prefix \<Rightarrow> Inr (prefix @ ''_'' @ m))"

definition create_generator ::
  "string list \<Rightarrow> node list \<Rightarrow> node list \<Rightarrow> environment \<Rightarrow> bool \<Rightarrow> string list" where
  "create_generator commands target source env for_signature = commands"

text \<open>
  The emitter that \<open>create_emitter\<close> returns. \<open>content_hash\<close> is the first eight
  characters of the digest of the command text, \<open>new_name\<close> is the path that the
  first loop builds for a target, \<open>rename_target\<close> is the body of that loop and
  \<open>rename_targets\<close> the loop: it stops at the first target that is neither a file nor a
  directory.
\<close>

definition content_hash :: "string \<Rightarrow> string" where
  "content_hash content = take 8 (md5_hexdigest content)"

definition new_name :: "string \<Rightarrow> string \<Rightarrow> string" where
  "new_name hash_str p = (let (base, ext) = splitext p in base @ ''_'' @ hash_str @ ext)"

definition rename_target :: "string \<Rightarrow> node \<Rightarrow> error + node" where
  "rename_target hash_str t =
     (case kind t of
        File \<Rightarrow> Inr \<lparr>kind = File, abspath = new_name hash_str (abspath t)\<rparr>
      | Dir \<Rightarrow> Inr \<lparr>kind = Dir, abspath = new_name hash_str (abspath t)\<rparr>
      | Entry \<Rightarrow> Inl UnknownTargetType)"

fun rename_targets :: "string \<Rightarrow> node list \<Rightarrow> error + node list" where
  "rename_targets hash_str [] = Inr []"
| "rename_targets hash_str (t # ts) =
     (case rename_target hash_str t of
        Inl e \<Rightarrow> Inl e
      | Inr new_t \<Rightarrow>
          (case rename_targets hash_str ts of
             Inl e \<Rightarrow> Inl e
           | Inr new_targets \<Rightarrow> Inr (new_t # new_targets)))"

definition log_name :: "node \<Rightarrow> string" where
  "log_name t = (let (base, ext) = splitext (abspath t) in base @ ''_'' @ lstrip_dot ext @ ''.command'')"

text \<open>
  The loop that writes the command next to every target. \<open>os.makedirs\<close> makes the
  directory of the log file first, so that the file can be opened; the model keeps the
  files and their contents only.
\<close>

definition write_logs :: "string \<Rightarrow> node list \<Rightarrow> (string \<rightharpoonup> string) \<Rightarrow> (string \<rightharpoonup> string)" where
  "write_logs new_command target fs =
     foldl (\<lambda>fs' t. fs'(log_name t \<mapsto> str_replace '' --'' (CHR 0x0A # ''  --'') new_command))
       fs target"

definition emitter ::
  "string \<Rightarrow> (node list \<Rightarrow> node list \<Rightarrow> environment \<Rightarrow> string) \<Rightarrow> string list
     \<Rightarrow> node list \<Rightarrow> node list \<Rightarrow> environment \<Rightarrow> world
     \<Rightarrow> (error + (node list \<times> node list)) \<times> world" where
  "emitter script get_contents other_deps target source env w =
     (let content = get_contents target source env
      in case rename_targets (content_hash content) target of
           Inl e \<Rightarrow> (Inl e, w)
         | Inr new_targets \<Rightarrow>
             (case decode (get_contents new_targets source env) of
                Inl e \<Rightarrow> (Inl e, w)
              | Inr new_command \<Rightarrow>
                  (Inr (new_targets, source),
                   w\<lparr>files := write_logs new_command new_targets (files w),
                     depends := depends w @
                       concat (map (\<lambda>t. map (\<lambda>s. (t, s)) (other_deps @ [script])) new_targets)\<rparr>)))"

text \<open>
  The printer that \<open>create_command_printer\<close> returns, for the engine object \<open>self\<close>.
  It returns the text \<open>Name(commands=..., name=..., job_id=..., depends_on_jobs=...)\<close>;
  the model returns the four values that the text shows. The tags and the counter are
  written before the name is computed, so they stay written when the name fails.
\<close>

record description =
  d_commands :: "string list"
  d_name :: string
  d_job_id :: int
  d_depends_on_jobs :: "int set"

definition command_printer ::
  "host \<Rightarrow> nat \<Rightarrow> (node list \<Rightarrow> node list \<Rightarrow> environment \<Rightarrow> bool \<Rightarrow> string list)
     \<Rightarrow> node list \<Rightarrow> node list \<Rightarrow> environment \<Rightarrow> world
     \<Rightarrow> (error + description) \<times> world" where
  "command_printer h self generator target source env w =
     (let commands = prepare_commands h target source env (generator target source env False);
          deps = depends_on (tags w) ''built_by_pseudo_job'' source;
          job_id = get_pseudo_id w self;
          w1 = w\<lparr>tags := tag_all (tags w) target ''built_by_pseudo_job'' job_id\<rparr>;
          w2 = w1\<lparr>inst_pseudo_id := (inst_pseudo_id w1)(self \<mapsto> get_pseudo_id w1 self + 1)\<rparr>
      in (case GridEngine_create_name target source env of
            Inl e \<Rightarrow> Inl e
          | Inr name \<Rightarrow>
              Inr \<lparr>d_commands = commands, d_name = name, d_job_id = job_id,
                   d_depends_on_jobs = deps\<rparr>,
          w2))"

section \<open>Example inputs\<close>

text \<open>
  A host whose scheduler answers every submission with the line \<open>1337\<close>, one whose
  scheduler answers with a line that is no number, an environment with the two
  variables the module reads, and the world at the start of the process: no tag, no
  instance attribute, no file written.
\<close>

definition demo_host :: host where
  "demo_host =
     \<lparr>subst_args = (\<lambda>target source env c. [c]),
      subst_submit = (\<lambda>env ov. ''sbatch --parsable''),
      communicate = (\<lambda>command_line stdin. ''1337'' @ [CHR 0x0A]),
      dir_abspath = (\<lambda>d. d),
      getcwd = ''/w'',
      path_exists = (\<lambda>p. p = ''/usr/bin/sbatch'')\<rparr>"

definition failing_host :: host where
  "failing_host = demo_host\<lparr>communicate := (\<lambda>command_line stdin. ''not-a-number'' @ [CHR 0x0A])\<rparr>"

definition demo_env :: environment where
  "demo_env = [''STEAMROLLER_NAME_PREFIX'' \<mapsto> ''steamroller'', ''STEAMROLLER_SHELL'' \<mapsto> ''#!/bin/bash'']"

definition start_world :: world where
  "start_world = \<lparr>tags = (\<lambda>n. Map.empty), inst_pseudo_id = Map.empty, files = Map.empty, depends = []\<rparr>"

definition demo_contents :: "node list \<Rightarrow> node list \<Rightarrow> environment \<Rightarrow> string" where
  "demo_contents target source env = ''run --x 1''"

definition out_txt :: node where
  "out_txt = \<lparr>kind = File, abspath = ''/w/out.txt''\<rparr>"

definition in_txt :: node where
  "in_txt = \<lparr>kind = File, abspath = ''/w/in.txt''\<rparr>"

definition out_d :: node where
  "out_d = \<lparr>kind = Dir, abspath = ''/w/out.d''\<rparr>"

definition tagged_world :: world where
  "tagged_world = start_world\<lparr>tags := Tag (tags start_world) in_txt ''built_by_job'' 42\<rparr>"

definition entry_node :: node where
  "entry_node = \<lparr>kind = Entry, abspath = ''/w/alias''\<rparr>"

section \<open>Properties\<close>

subsection \<open>Job names\<close>

text \<open>
  Claim C10. The module-level \<open>create_name\<close>, which the real submission uses, and
  the method \<open>GridEngine.create_name\<close>, which the descriptive mode uses, return the
  same result for every target list, source list and environment, so the name that the
  descriptive mode reports (or the error it raises) is the one of a real submission.
\<close>

theorem create_name_agrees:
  "create_name target source env = GridEngine_create_name target source env
   \<and> map_sum id d_name (fst (command_printer h self generator target source env w))
       = create_name target source env"
  by (simp add: create_name_def GridEngine_create_name_def command_printer_def Let_def
      split: option.splits)

lemma md5_demo_paths:
  "md5_hexdigest ''/w/out.txt /w/in.txt'' = ''adefb3d7f9abf2a708990c728d129651''"
  by code_simp

text \<open>
  Claim C6. The job name is the configured name prefix, an underscore and the digest of
  the absolute paths of all targets followed by all sources, joined by spaces. No
  command text enters it: rules with the same paths and the same prefix get the same
  name, whatever else differs in their nodes and environments.
\<close>

theorem create_name_digest_of_paths:
  assumes "map abspath target' = map abspath target"
    and "map abspath source' = map abspath source"
    and "env' ''STEAMROLLER_NAME_PREFIX'' = Some prefix"
    and "env ''STEAMROLLER_NAME_PREFIX'' = Some prefix"
  shows "create_name target source env =
           Inr (prefix @ ''_'' @ md5_hexdigest (str_join '' '' (map abspath (target @ source))))
         \<and> create_name target' source' env' = create_name target source env"
  using assms by (simp add: create_name_def)

theorem create_name_digest_of_paths_witness:
  "create_name [out_txt] [in_txt] demo_env = Inr ''steamroller_adefb3d7f9abf2a708990c728d129651''
   \<and> create_name [out_txt\<lparr>kind := Dir\<rparr>] [in_txt\<lparr>kind := Entry\<rparr>]
        (demo_env(''STEAMROLLER_SHELL'' \<mapsto> ''sh'')) = create_name [out_txt] [in_txt] demo_env"
  using create_name_digest_of_paths [of "[out_txt\<lparr>kind := Dir\<rparr>]" "[out_txt]"
      "[in_txt\<lparr>kind := Entry\<rparr>]" "[in_txt]" "demo_env(''STEAMROLLER_SHELL'' \<mapsto> ''sh'')"
      "''steamroller''" demo_env]
  by (simp add: out_txt_def in_txt_def demo_env_def md5_demo_paths)

subsection \<open>Dependencies and tags of a real submission\<close>

lemma depends_on_set:
  "depends_on st key source = {j. \<exists>s\<in>set source. GetTag st s key = Some j}"
proof (induction source)
  case Nil
  show ?case by (simp add: depends_on_def)
next
  case (Cons s source)
  then show ?case
    by (cases "GetTag st s key") (auto simp: depends_on_def)
qed

text \<open>
  Claim C3. The dependency set that \<open>method\<close> passes to \<open>submit\<close> is exactly the set of
  the values of the tag \<open>built_by_job\<close> on the sources of the rule: every tagged source
  contributes its value once, a source without the tag contributes nothing, and nothing
  else is in the set.
\<close>

theorem depends_on_exact:
  "depends_on (tags w) ''built_by_job'' source
     = {j. \<exists>s\<in>set source. GetTag (tags w) s ''built_by_job'' = Some j}
   \<and> create_method h generator chdir submit_string target source env w
     = (case submit h submit_string target source env
               (prepare_commands h target source env (generator target source env False))
               {j. \<exists>s\<in>set source. GetTag (tags w) s ''built_by_job'' = Some j}
               (case chdir of None \<Rightarrow> getcwd h
                | Some d \<Rightarrow> if d = [] then getcwd h else dir_abspath h d) of
          Inl e \<Rightarrow> (Inl e, w)
        | Inr job_id \<Rightarrow> (Inr (), w\<lparr>tags := tag_all (tags w) target ''built_by_job'' job_id\<rparr>))"
  by (simp add: create_method_def Let_def depends_on_set)

theorem depends_on_exact_witness:
  "depends_on (tags tagged_world) ''built_by_job'' [in_txt, out_d] = {42}"
proof -
  have "{j. \<exists>s\<in>set [in_txt, out_d]. GetTag (tags tagged_world) s ''built_by_job'' = Some j} = {42}"
    by (auto simp: tagged_world_def start_world_def Tag_def GetTag_def in_txt_def out_d_def)
  with depends_on_exact [of tagged_world "[in_txt, out_d]"] show ?thesis by simp
qed

lemma tag_all_other:
  "n \<notin> set target \<or> key' \<noteq> key \<Longrightarrow> GetTag (tag_all st target key v) n key' = GetTag st n key'"
  unfolding tag_all_def
  by (induction target arbitrary: st) (auto simp: Tag_def GetTag_def)

lemma tag_all_target:
  "t \<in> set target \<Longrightarrow> GetTag (tag_all st target key v) t key = Some v"
  unfolding tag_all_def
proof (induction target arbitrary: st rule: rev_induct)
  case Nil
  then show ?case by simp
next
  case (snoc x xs)
  then show ?case by (auto simp: Tag_def GetTag_def)
qed

lemma parse_1337: "py_int (strip (''1337'' @ [CHR 0x0A])) = Inr 1337"
  by (simp add: strip_def py_isspace_def py_int_def is_digit_def digits_value_def digit_val_def)

lemma parse_not_a_number: "py_int (strip (''not-a-number'' @ [CHR 0x0A])) = Inl ValueError"
  by (simp add: strip_def py_isspace_def py_int_def is_digit_def)

lemma demo_submit:
  "submit demo_host ''sbatch'' [out_txt] [in_txt] demo_env cmds deps wd = Inr 1337"
  by (simp add: submit_def create_name_def demo_env_def demo_host_def Let_def
      parse_1337 [simplified])

lemma failing_submit:
  "submit failing_host ''sbatch'' [out_txt] [in_txt] demo_env cmds deps wd = Inl ValueError"
  by (simp add: submit_def create_name_def demo_env_def demo_host_def failing_host_def Let_def
      parse_not_a_number [simplified])

text \<open>
  Claim C9. A real submission changes nothing but the tag \<open>built_by_job\<close> of the
  targets of the rule: every other key of every node, and every key of every node that
  is not a target, keeps its value (so the tags of the sources are read only), and the
  rest of the world (the counters of the engines, the files, the registered
  dependencies) is as before.
\<close>

theorem create_method_frame:
  assumes "create_method h generator chdir submit_string target source env w = (r, w')"
  shows "inst_pseudo_id w' = inst_pseudo_id w \<and> files w' = files w \<and> depends w' = depends w
    \<and> (\<forall>n key. n \<notin> set target \<or> key \<noteq> ''built_by_job''
          \<longrightarrow> GetTag (tags w') n key = GetTag (tags w) n key)
    \<and> (\<forall>s\<in>set source. s \<notin> set target \<longrightarrow> tags w' s = tags w s)"
proof -
  have other: "tags w' s = tags w s" if "s \<notin> set target" for s
  proof
    fix key
    show "tags w' s key = tags w s key"
      using assms that tag_all_other [of s target key "''built_by_job''" "tags w"]
      by (auto simp: create_method_def Let_def GetTag_def split: sum.splits)
  qed
  have frame: "GetTag (tags w') n key = GetTag (tags w) n key"
    if "n \<notin> set target \<or> key \<noteq> ''built_by_job''" for n key
    using assms that tag_all_other [of n target key "''built_by_job''" "tags w"]
    by (auto simp: create_method_def Let_def split: sum.splits)
  have rest: "inst_pseudo_id w' = inst_pseudo_id w \<and> files w' = files w \<and> depends w' = depends w"
    using assms by (auto simp: create_method_def Let_def split: sum.splits)
  from other frame rest show ?thesis by blast
qed

theorem create_method_frame_witness:
  "tags (snd (create_method demo_host (create_generator [''python3 s.py'']) None ''sbatch''
                [out_txt] [in_txt] demo_env tagged_world)) in_txt
     = [''built_by_job'' \<mapsto> 42]
   \<and> GetTag (tags (snd (create_method demo_host (create_generator [''python3 s.py'']) None ''sbatch''
                [out_txt] [in_txt] demo_env tagged_world))) out_txt ''built_by_pseudo_job'' = None
   \<and> GetTag (tags (snd (create_method demo_host (create_generator [''python3 s.py'']) None ''sbatch''
                [out_txt] [in_txt] demo_env tagged_world))) out_txt ''built_by_job'' = Some 1337"
proof -
  let ?c = "create_method demo_host (create_generator [''python3 s.py'']) None ''sbatch''
              [out_txt] [in_txt] demo_env tagged_world"
  have apart: "in_txt \<notin> set [out_txt]"
    by (simp add: in_txt_def out_txt_def)
  have before: "tags tagged_world in_txt = [''built_by_job'' \<mapsto> 42]"
    and none: "GetTag (tags tagged_world) out_txt ''built_by_pseudo_job'' = None"
    by (simp_all add: tagged_world_def start_world_def Tag_def GetTag_def in_txt_def out_txt_def)
  have written: "GetTag (tags (snd ?c)) out_txt ''built_by_job'' = Some 1337"
    by (simp add: create_method_def Let_def demo_submit tag_all_target)
  from create_method_frame [OF prod.collapse [symmetric], of demo_host
      "create_generator [''python3 s.py'']" None "''sbatch''" "[out_txt]" "[in_txt]" demo_env
      tagged_world] apart before none written
  show ?thesis by simp
qed

text \<open>
  Claim C4. A submission reads the standard output of the scheduler's process, strips the
  whitespace around it and parses it as an integer: the output \<open>1337\<close> and a newline
  give the job identifier 1337, which is then written to the tag \<open>built_by_job\<close> of
  every target. When the stripped output is no integer the call fails with the parse
  error and no tag is written: the world is the one before the call, as it is after any
  failure of the call.
\<close>

theorem create_method_parses_job_id:
  assumes "env ''STEAMROLLER_NAME_PREFIX'' = Some prefix"
    and "env ''STEAMROLLER_SHELL'' = Some shell"
    and "target = t0 # ts"
    and "out = communicate h
           (subst_submit h env
              \<lparr>STEAMROLLER_NAME =
                 prefix @ ''_'' @ md5_hexdigest (str_join '' '' (map abspath (target @ source))),
               STEAMROLLER_LOG = abspath t0 @ ''.log'',
               STEAMROLLER_WORKING_DIRECTORY =
                 (case chdir of None \<Rightarrow> getcwd h
                  | Some d \<Rightarrow> if d = [] then getcwd h else dir_abspath h d),
               STEAMROLLER_DEPENDENCIES = depends_on (tags w) ''built_by_job'' source,
               STEAMROLLER_SUBMIT_STRING = submit_string\<rparr>)
           (str_join [CHR 0x0A]
              (shell # prepare_commands h target source env (generator target source env False)))"
  shows "(\<forall>j. py_int (strip out) = Inr j \<longrightarrow>
            create_method h generator chdir submit_string target source env w
              = (Inr (), w\<lparr>tags := tag_all (tags w) target ''built_by_job'' j\<rparr>))
       \<and> (\<forall>e. py_int (strip out) = Inl e \<longrightarrow>
            create_method h generator chdir submit_string target source env w = (Inl e, w))
       \<and> (\<forall>e. fst (create_method h generator chdir submit_string target source env w) = Inl e \<longrightarrow>
            snd (create_method h generator chdir submit_string target source env w) = w)
       \<and> py_int (strip (''1337'' @ [CHR 0x0A])) = Inr 1337
       \<and> py_int (strip (''not-a-number'' @ [CHR 0x0A])) = Inl ValueError"
proof -
  have sub: "submit h submit_string target source env
               (prepare_commands h target source env (generator target source env False))
               (depends_on (tags w) ''built_by_job'' source)
               (case chdir of None \<Rightarrow> getcwd h
                | Some d \<Rightarrow> if d = [] then getcwd h else dir_abspath h d)
             = py_int (strip out)"
    using assms by (simp add: submit_def create_name_def Let_def)
  have ok: "create_method h generator chdir submit_string target source env w
              = (Inr (), w\<lparr>tags := tag_all (tags w) target ''built_by_job'' j\<rparr>)"
    if "py_int (strip out) = Inr j" for j
    using sub that by (simp add: create_method_def Let_def)
  have bad: "create_method h generator chdir submit_string target source env w = (Inl e, w)"
    if "py_int (strip out) = Inl e" for e
    using sub that by (simp add: create_method_def Let_def)
  have unchanged: "snd (create_method h generator chdir submit_string target source env w) = w"
    if "fst (create_method h generator chdir submit_string target source env w) = Inl e" for e
    using that by (auto simp: create_method_def Let_def split: sum.splits)
  from ok bad unchanged parse_1337 parse_not_a_number show ?thesis by blast
qed

theorem create_method_parses_job_id_witness:
  "create_method failing_host (create_generator [''python3 s.py'']) None ''sbatch''
       [out_txt] [in_txt] demo_env tagged_world = (Inl ValueError, tagged_world)
   \<and> create_method demo_host (create_generator [''python3 s.py'']) None ''sbatch''
       [out_txt] [in_txt] demo_env tagged_world
     = (Inr (), tagged_world\<lparr>tags := tag_all (tags tagged_world) [out_txt] ''built_by_job'' 1337\<rparr>)"
proof -
  have bad: "create_method failing_host (create_generator [''python3 s.py'']) None ''sbatch''
       [out_txt] [in_txt] demo_env tagged_world = (Inl ValueError, tagged_world)"
    using create_method_parses_job_id [of demo_env "''steamroller''" "''#!/bin/bash''"
        "[out_txt]" out_txt "[]" "''not-a-number'' @ [CHR 0x0A]" failing_host "[in_txt]" None
        tagged_world "''sbatch''" "create_generator [''python3 s.py'']"]
    by (simp add: demo_env_def failing_host_def demo_host_def)
  have ok: "create_method demo_host (create_generator [''python3 s.py'']) None ''sbatch''
       [out_txt] [in_txt] demo_env tagged_world
     = (Inr (), tagged_world\<lparr>tags := tag_all (tags tagged_world) [out_txt] ''built_by_job'' 1337\<rparr>)"
    using create_method_parses_job_id [of demo_env "''steamroller''" "''#!/bin/bash''"
        "[out_txt]" out_txt "[]" "''1337'' @ [CHR 0x0A]" demo_host "[in_txt]" None
        tagged_world "''sbatch''" "create_generator [''python3 s.py'']"]
    by (simp add: demo_env_def demo_host_def)
  from bad ok show ?thesis by simp
qed

subsection \<open>Targets of an unsupported kind\<close>

lemma rename_targets_Entry:
  "t \<in> set target \<Longrightarrow> kind t = Entry \<Longrightarrow> rename_targets hash_str target = Inl UnknownTargetType"
proof (induction target)
  case Nil
  then show ?case by simp
next
  case (Cons a target)
  then show ?case
    by (cases "kind a") (auto simp: rename_target_def split: sum.splits)
qed

text \<open>
  Claim C8. When one of the nominal targets is neither a file node nor a directory node,
  the emitter fails with the error for an unknown target type. It returns no renamed
  target, writes no log file and registers no dependency: the world is the one before
  the call.
\<close>

theorem emitter_unknown_target_kind:
  assumes "t \<in> set target" and "kind t \<noteq> File" and "kind t \<noteq> Dir"
  shows "emitter script get_contents other_deps target source env w = (Inl UnknownTargetType, w)"
proof -
  from assms have "kind t = Entry" by (cases "kind t") simp_all
  with assms(1) have "rename_targets (content_hash (get_contents target source env)) target
      = Inl UnknownTargetType"
    by (rule rename_targets_Entry)
  then show ?thesis by (simp add: emitter_def Let_def)
qed

theorem emitter_unknown_target_kind_witness:
  "emitter ''s.py'' demo_contents [] [out_txt, entry_node] [in_txt] demo_env start_world
     = (Inl UnknownTargetType, start_world)"
  using emitter_unknown_target_kind [of entry_node "[out_txt, entry_node]" "''s.py''"
      demo_contents "[]" "[in_txt]" demo_env start_world]
  by (simp add: entry_node_def)

subsection \<open>The descriptive mode\<close>

lemma command_printer_world:
  "snd (command_printer h self g target source env w)
     = w\<lparr>tags := tag_all (tags w) target ''built_by_pseudo_job'' (get_pseudo_id w self),
         inst_pseudo_id := (inst_pseudo_id w)(self \<mapsto> get_pseudo_id w self + 1)\<rparr>"
  by (simp add: command_printer_def Let_def get_pseudo_id_def)

lemma command_printer_job_id:
  "fst (command_printer h self g target source env w) = Inr d \<Longrightarrow> d_job_id d = get_pseudo_id w self"
  by (auto simp: command_printer_def Let_def split: sum.splits)

text \<open>
  What one descriptive call does: its identifier is the \<open>pseudo_id\<close> that its engine
  object reads (0 from the class until the object has counted, then the object's own
  attribute), the count is stored on that object only, and the identifier is written to
  the tag \<open>built_by_pseudo_job\<close> of the targets and to nothing else, so no tag
  \<open>built_by_job\<close> changes. On one and the same engine object the next call gets the
  next identifier.
\<close>

lemma command_printer_counter:
  assumes first: "command_printer h self g1 target1 source1 env1 w = (Inr d1, w1)"
    and between: "inst_pseudo_id w1' self = inst_pseudo_id w1 self"
    and second: "command_printer h' self g2 target2 source2 env2 w1' = (Inr d2, w2)"
  shows "d_job_id d1 = get_pseudo_id w self \<and> d_job_id d2 = d_job_id d1 + 1
    \<and> (\<forall>other. other \<noteq> self \<longrightarrow> inst_pseudo_id w1 other = inst_pseudo_id w other)
    \<and> (\<forall>t\<in>set target1. GetTag (tags w1) t ''built_by_pseudo_job'' = Some (d_job_id d1))
    \<and> (\<forall>n key. n \<notin> set target1 \<or> key \<noteq> ''built_by_pseudo_job''
          \<longrightarrow> GetTag (tags w1) n key = GetTag (tags w) n key)
    \<and> (\<forall>n. GetTag (tags w1) n ''built_by_job'' = GetTag (tags w) n ''built_by_job'')
    \<and> files w1 = files w \<and> depends w1 = depends w"
proof -
  have w1: "w1 = w\<lparr>tags := tag_all (tags w) target1 ''built_by_pseudo_job'' (get_pseudo_id w self),
         inst_pseudo_id := (inst_pseudo_id w)(self \<mapsto> get_pseudo_id w self + 1)\<rparr>"
    using command_printer_world [of h self g1 target1 source1 env1 w] first by simp
  have id1: "d_job_id d1 = get_pseudo_id w self"
    using command_printer_job_id [of h self g1 target1 source1 env1 w d1] first by simp
  have id2: "d_job_id d2 = get_pseudo_id w1' self"
    using command_printer_job_id [of h' self g2 target2 source2 env2 w1' d2] second by simp
  have next_id: "get_pseudo_id w1' self = get_pseudo_id w self + 1"
    using between w1 by (simp add: get_pseudo_id_def)
  have others: "\<forall>other. other \<noteq> self \<longrightarrow> inst_pseudo_id w1 other = inst_pseudo_id w other"
    using w1 by simp
  have written: "\<forall>t\<in>set target1. GetTag (tags w1) t ''built_by_pseudo_job'' = Some (d_job_id d1)"
    using w1 id1 by (simp add: tag_all_target)
  have frame: "\<forall>n key. n \<notin> set target1 \<or> key \<noteq> ''built_by_pseudo_job''
          \<longrightarrow> GetTag (tags w1) n key = GetTag (tags w) n key"
    using w1 by (simp add: tag_all_other)
  have real: "\<forall>n. GetTag (tags w1) n ''built_by_job'' = GetTag (tags w) n ''built_by_job''"
    using w1 by (simp add: tag_all_other)
  have rest: "files w1 = files w \<and> depends w1 = depends w"
    using w1 by simp
  from id1 id2 next_id others written frame real rest show ?thesis by simp
qed

lemma command_printer_counter_example:
  "map_sum id d_job_id (fst (command_printer demo_host 0 (create_generator [''python3 s.py''])
       [out_txt] [in_txt] demo_env start_world)) = Inr 0
   \<and> map_sum id d_job_id (fst (command_printer demo_host 0 (create_generator [''python3 s.py''])
       [out_d] [out_txt] demo_env
       (snd (command_printer demo_host 0 (create_generator [''python3 s.py''])
          [out_txt] [in_txt] demo_env start_world)))) = Inr 1"
proof -
  let ?g = "create_generator [''python3 s.py'']"
  let ?c1 = "command_printer demo_host 0 ?g [out_txt] [in_txt] demo_env start_world"
  let ?c2 = "command_printer demo_host 0 ?g [out_d] [out_txt] demo_env (snd ?c1)"
  obtain d1 where d1: "fst ?c1 = Inr d1"
    by (simp add: command_printer_def Let_def GridEngine_create_name_def demo_env_def)
  obtain d2 where d2: "fst ?c2 = Inr d2"
    by (simp add: command_printer_def Let_def GridEngine_create_name_def demo_env_def)
  have c1: "?c1 = (Inr d1, snd ?c1)" using d1 by (simp add: prod_eq_iff)
  have c2: "?c2 = (Inr d2, snd ?c2)" using d2 by (simp add: prod_eq_iff)
  have start: "get_pseudo_id start_world 0 = 0"
    by (simp add: get_pseudo_id_def start_world_def class_pseudo_id_def)
  from command_printer_counter [OF c1 refl c2] start d1 d2 show ?thesis by simp
qed

text \<open>
  Claim C5. The pseudo-identifiers of the descriptive mode are to come from one counter
  shared by the whole process, so that successive descriptive calls get strictly
  increasing identifiers, recorded under the tag \<open>built_by_pseudo_job\<close> only. The
  code keeps to the tag, but not to the shared counter: \<open>self.pseudo_id += 1\<close> stores
  the count on the engine object and leaves the class attribute at 0. With two engine
  objects in one process, the first call of the second object repeats the identifier 0
  that the first object has given out: both targets carry the pseudo-identifier 0, and
  the second rule, whose source is the first rule's target, is reported as job 0 that
  depends on job 0.
\<close>

theorem fresh_engines_repeat_pseudo_id:
  "map_sum id d_job_id (fst (command_printer demo_host 0 (create_generator [''python3 s.py''])
       [out_txt] [in_txt] demo_env start_world)) = Inr 0
   \<and> map_sum id d_job_id (fst (command_printer demo_host 1 (create_generator [''python3 s.py''])
       [out_d] [out_txt] demo_env
       (snd (command_printer demo_host 0 (create_generator [''python3 s.py''])
          [out_txt] [in_txt] demo_env start_world)))) = Inr 0
   \<and> map_sum id d_depends_on_jobs
       (fst (command_printer demo_host 1 (create_generator [''python3 s.py''])
       [out_d] [out_txt] demo_env
       (snd (command_printer demo_host 0 (create_generator [''python3 s.py''])
          [out_txt] [in_txt] demo_env start_world)))) = Inr {0}
   \<and> GetTag (tags (snd (command_printer demo_host 1 (create_generator [''python3 s.py''])
       [out_d] [out_txt] demo_env
       (snd (command_printer demo_host 0 (create_generator [''python3 s.py''])
          [out_txt] [in_txt] demo_env start_world))))) out_txt ''built_by_pseudo_job'' = Some 0
   \<and> GetTag (tags (snd (command_printer demo_host 1 (create_generator [''python3 s.py''])
       [out_d] [out_txt] demo_env
       (snd (command_printer demo_host 0 (create_generator [''python3 s.py''])
          [out_txt] [in_txt] demo_env start_world))))) out_d ''built_by_pseudo_job'' = Some 0
   \<and> class_pseudo_id = 0"
  by (simp add: command_printer_def Let_def GridEngine_create_name_def demo_env_def
      get_pseudo_id_def class_pseudo_id_def start_world_def depends_on_def tag_all_def
      Tag_def GetTag_def out_txt_def out_d_def in_txt_def)

subsection \<open>The availability check\<close>

lemma path_join_plain:
  assumes "name \<noteq> []" and "CHR ''/'' \<notin> set name"
  shows "path_join d name = (if d = [] \<or> last d = CHR ''/'' then d @ name else d @ ''/'' @ name)"
  using assms by (cases name) (auto simp: path_join_def)

text \<open>
  Claim C7. With the search list \<open>PATH\<close> set, the check for an executable with the
  file name \<open>name\<close> (not empty, no slash) is true exactly when, for some directory of
  the list, the path of the entry \<open>name\<close> in that directory exists; an empty directory
  name stands for the current directory. Only the existence of paths is asked for: the
  answer is the same whatever the process facility of the host would do, since nothing
  is run.
\<close>

theorem check_for_executable_scans_path:
  assumes "environ ''PATH'' = Some v" and "name \<noteq> []" and "CHR ''/'' \<notin> set name"
  shows "check_for_executable h environ name
           = Inr (\<exists>d\<in>set (str_split CHR '':'' v).
                    path_exists h (if d = [] \<or> last d = CHR ''/'' then d @ name
                                   else d @ ''/'' @ name))
         \<and> check_for_executable (h\<lparr>communicate := c\<rparr>) environ name
           = check_for_executable h environ name"
  using assms by (simp add: check_for_executable_def list_ex_iff path_join_plain)

theorem check_for_executable_scans_path_witness:
  "check_for_executable demo_host [''PATH'' \<mapsto> ''/bin:/usr/bin''] ''sbatch'' = Inr True
   \<and> check_for_executable demo_host [''PATH'' \<mapsto> ''/bin:/opt/bin''] ''sbatch'' = Inr False"
  using check_for_executable_scans_path [of "[''PATH'' \<mapsto> ''/bin:/usr/bin'']" "''/bin:/usr/bin''"
      "''sbatch''" demo_host]
    check_for_executable_scans_path [of "[''PATH'' \<mapsto> ''/bin:/opt/bin'']" "''/bin:/opt/bin''"
      "''sbatch''" demo_host]
  by (simp add: demo_host_def)

subsection \<open>Content addressing\<close>

lemma length_md5_digest: "length (md5_digest msg) = 16"
  by (simp add: md5_digest_def le_bytes_def split: prod.splits)

lemma length_hex_bytes: "length (concat (map hex_byte bs)) = 2 * length bs"
  by (induction bs) (simp_all add: hex_byte_def)

lemma length_md5_hexdigest: "length (md5_hexdigest s) = 32"
  by (simp add: md5_hexdigest_def length_hex_bytes length_md5_digest)

lemma hex_digit_is_hex: "is_hex_char (hex_digit n)"
proof -
  have "n mod 16 < length ''0123456789abcdef''" by simp
  then have "''0123456789abcdef'' ! (n mod 16) \<in> set ''0123456789abcdef''"
    by (rule nth_mem)
  then show ?thesis by (simp only: is_hex_char_def hex_digit_def)
qed

lemma hex_bytes_are_hex: "list_all is_hex_char (concat (map hex_byte bs))"
  by (induction bs) (simp_all add: hex_byte_def hex_digit_is_hex)

lemma md5_hexdigest_is_hex: "list_all is_hex_char (md5_hexdigest s)"
  by (simp add: md5_hexdigest_def hex_bytes_are_hex)

lemma content_hash_shape: "length (content_hash c) = 8 \<and> list_all is_hex_char (content_hash c)"
proof -
  have "list_all is_hex_char (take 8 (md5_hexdigest c))"
    using md5_hexdigest_is_hex [of c] by (auto simp: list_all_iff dest: in_set_takeD)
  then show ?thesis by (simp add: content_hash_def length_md5_hexdigest)
qed

lemma rfind_from_absent: "c \<notin> set ys \<Longrightarrow> rfind_from c ys i f = f"
  by (induction ys arbitrary: i f) auto

lemma rfind_from_append:
  "rfind_from c (xs @ ys) i f = rfind_from c ys (i + int (length xs)) (rfind_from c xs i f)"
  by (induction xs arbitrary: i f) (auto simp: algebra_simps)

lemma rfind_absent: "c \<notin> set s \<Longrightarrow> rfind c s = -1"
  by (simp add: rfind_def rfind_from_absent)

lemma rfind_absent_suffix: "c \<notin> set ys \<Longrightarrow> rfind c (xs @ ys) = rfind c xs"
  by (simp add: rfind_def rfind_from_append rfind_from_absent)

lemma rfind_last: "c \<notin> set ys \<Longrightarrow> rfind c (xs @ c # ys) = int (length xs)"
  by (simp add: rfind_def rfind_from_append rfind_from_absent)

lemma rfind_cases:
  obtains (absent) "c \<notin> set s" "rfind c s = -1"
  | (found) xs ys where "s = xs @ c # ys" "c \<notin> set ys" "rfind c s = int (length xs)"
proof (cases "c \<in> set s")
  case True
  then obtain xs ys where "s = xs @ c # ys" "c \<notin> set ys"
    by (auto dest: split_list_last)
  then show ?thesis using found rfind_last by blast
next
  case False
  then show ?thesis using absent rfind_absent by blast
qed

lemma rfind_bounds: "-1 \<le> rfind c s \<and> rfind c s < int (length s)"
  by (cases c s rule: rfind_cases) auto

lemma splitext_loop_char:
  "splitext_loop p i d =
     (if \<exists>k. i \<le> k \<and> k < d \<and> take 1 (drop k p) \<noteq> ''.'' then (take d p, drop d p) else (p, []))"
proof (induction p i d rule: splitext_loop.induct)
  case (1 p i d)
  show ?case
  proof (cases "i < d")
    case False
    then show ?thesis by (subst splitext_loop.simps) auto
  next
    case True
    show ?thesis
    proof (cases "take 1 (drop i p) \<noteq> ''.''")
      case True
      with \<open>i < d\<close> show ?thesis by (subst splitext_loop.simps) auto
    next
      case False
      have step: "splitext_loop p i d = splitext_loop p (i + 1) d"
        using \<open>i < d\<close> False by (subst splitext_loop.simps) simp
      have "(\<exists>k. i \<le> k \<and> k < d \<and> take 1 (drop k p) \<noteq> ''.'')
            = (\<exists>k. i + 1 \<le> k \<and> k < d \<and> take 1 (drop k p) \<noteq> ''.'')"
      proof (intro iffI; elim exE conjE)
        fix k assume k: "i \<le> k" "k < d" "take 1 (drop k p) \<noteq> ''.''"
        from k(3) False have "k \<noteq> i" by blast
        with k(1) have "i + 1 \<le> k" by simp
        with k(2,3) show "\<exists>k. i + 1 \<le> k \<and> k < d \<and> take 1 (drop k p) \<noteq> ''.''" by blast
      next
        fix k assume k: "i + 1 \<le> k" "k < d" "take 1 (drop k p) \<noteq> ''.''"
        from k(1) have "i \<le> k" by simp
        with k(2,3) show "\<exists>k. i \<le> k \<and> k < d \<and> take 1 (drop k p) \<noteq> ''.''" by blast
      qed
      with step "1.IH" [OF \<open>i < d\<close>] False show ?thesis by simp
    qed
  qed
qed

lemma splitext_value:
  assumes "rfind CHR ''/'' p = s" and "rfind CHR ''.'' p = d"
  shows "splitext p =
     (if s < d \<and> (\<exists>k. nat (s + 1) \<le> k \<and> k < nat d \<and> take 1 (drop k p) \<noteq> ''.'')
      then (take (nat d) p, drop (nat d) p) else (p, []))"
  using assms by (auto simp: splitext_def splitext_loop_char Let_def)


lemma take1_drop_prefix: "k < length xs \<Longrightarrow> take 1 (drop k (xs @ zs)) = take 1 (drop k xs)"
  by simp

lemma splitext_no_dot:
  assumes "CHR ''.'' \<notin> set p"
  shows "splitext p = (p, [])"
  using splitext_value [OF refl refl, of p] rfind_absent [OF assms] rfind_bounds [of "CHR ''/''" p]
  by auto

lemma splitext_dot_before_sep:
  assumes "CHR ''.'' \<notin> set ys" and "CHR ''/'' \<in> set ys"
  shows "splitext (xs @ CHR ''.'' # ys) = (xs @ CHR ''.'' # ys, [])"
proof -
  from assms(2) obtain ys1 ys2 where ys: "ys = ys1 @ CHR ''/'' # ys2" "CHR ''/'' \<notin> set ys2"
    by (auto dest: split_list_last)
  have "rfind CHR ''/'' (xs @ CHR ''.'' # ys) = int (length (xs @ CHR ''.'' # ys1))"
    using rfind_last [OF ys(2), of "xs @ CHR ''.'' # ys1"] ys(1) by simp
  moreover have "rfind CHR ''.'' (xs @ CHR ''.'' # ys) = int (length xs)"
    using assms(1) by (rule rfind_last)
  ultimately show ?thesis
    using splitext_value [OF refl refl, of "xs @ CHR ''.'' # ys"] by simp
qed

lemma splitext_dot_after_sep:
  assumes "CHR ''.'' \<notin> set ys" and "CHR ''/'' \<notin> set ys"
  shows "splitext (xs @ CHR ''.'' # ys) =
     (if \<exists>k. nat (rfind CHR ''/'' xs + 1) \<le> k \<and> k < length xs \<and> take 1 (drop k xs) \<noteq> ''.''
      then (xs, CHR ''.'' # ys) else (xs @ CHR ''.'' # ys, []))"
proof -
  have sep: "rfind CHR ''/'' (xs @ CHR ''.'' # ys) = rfind CHR ''/'' xs"
    using assms(2) by (intro rfind_absent_suffix) simp
  have dot: "rfind CHR ''.'' (xs @ CHR ''.'' # ys) = int (length xs)"
    using assms(1) by (rule rfind_last)
  have lt: "rfind CHR ''/'' xs < int (length xs)"
    using rfind_bounds [of "CHR ''/''" xs] by simp
  have cond: "(rfind CHR ''/'' xs < int (length xs)
                \<and> (\<exists>k. nat (rfind CHR ''/'' xs + 1) \<le> k \<and> k < nat (int (length xs))
                       \<and> take 1 (drop k (xs @ CHR ''.'' # ys)) \<noteq> ''.''))
            = (\<exists>k. nat (rfind CHR ''/'' xs + 1) \<le> k \<and> k < length xs \<and> take 1 (drop k xs) \<noteq> ''.'')"
    using lt by (auto simp: take1_drop_prefix)
  show ?thesis
    unfolding splitext_value [OF sep dot] cond by auto
qed

lemma splitext_new_name:
  assumes nodot: "CHR ''.'' \<notin> set h" and nosep: "CHR ''/'' \<notin> set h"
  shows "splitext (new_name h p) = (fst (splitext p) @ ''_'' @ h, snd (splitext p))"
proof (cases "CHR ''.'' \<in> set p")
  case False
  then have p: "splitext p = (p, [])" by (rule splitext_no_dot)
  have "CHR ''.'' \<notin> set (p @ ''_'' @ h)" using False nodot by simp
  then have "splitext (p @ ''_'' @ h) = (p @ ''_'' @ h, [])" by (rule splitext_no_dot)
  with p show ?thesis by (simp add: new_name_def)
next
  case True
  then obtain xs ys where p: "p = xs @ CHR ''.'' # ys" and ys: "CHR ''.'' \<notin> set ys"
    by (auto dest: split_list_last)
  show ?thesis
  proof (cases "CHR ''/'' \<in> set ys")
    case True
    have old: "splitext p = (p, [])"
      using splitext_dot_before_sep [OF ys True, of xs] p by simp
    have "CHR ''.'' \<notin> set (ys @ ''_'' @ h)" "CHR ''/'' \<in> set (ys @ ''_'' @ h)"
      using ys nodot True by simp_all
    then have "splitext (xs @ CHR ''.'' # (ys @ ''_'' @ h)) = (xs @ CHR ''.'' # (ys @ ''_'' @ h), [])"
      by (rule splitext_dot_before_sep)
    with old p show ?thesis by (simp add: new_name_def)
  next
    case False
    let ?stem = "\<exists>k. nat (rfind CHR ''/'' xs + 1) \<le> k \<and> k < length xs \<and> take 1 (drop k xs) \<noteq> ''.''"
    have old: "splitext p = (if ?stem then (xs, CHR ''.'' # ys) else (p, []))"
      using splitext_dot_after_sep [OF ys False, of xs] p by auto
    show ?thesis
    proof (cases ?stem)
      case True
      then obtain k where k: "nat (rfind CHR ''/'' xs + 1) \<le> k" "k < length xs"
          "take 1 (drop k xs) \<noteq> ''.''"
        by blast
      have sep': "rfind CHR ''/'' (xs @ ''_'' @ h) = rfind CHR ''/'' xs"
        using nosep by (intro rfind_absent_suffix) simp
      have "nat (rfind CHR ''/'' (xs @ ''_'' @ h) + 1) \<le> k \<and> k < length (xs @ ''_'' @ h)
              \<and> take 1 (drop k (xs @ ''_'' @ h)) \<noteq> ''.''"
        using k sep' by (simp add: take1_drop_prefix)
      then have stem': "\<exists>k. nat (rfind CHR ''/'' (xs @ ''_'' @ h) + 1) \<le> k
              \<and> k < length (xs @ ''_'' @ h) \<and> take 1 (drop k (xs @ ''_'' @ h)) \<noteq> ''.''"
        by blast
      have "splitext ((xs @ ''_'' @ h) @ CHR ''.'' # ys) = (xs @ ''_'' @ h, CHR ''.'' # ys)"
        using splitext_dot_after_sep [OF ys False, of "xs @ ''_'' @ h"] stem' by auto
      with old True show ?thesis by (auto simp: new_name_def)
    next
      case nostem: False
      have dots: "CHR ''.'' \<notin> set (ys @ ''_'' @ h)" and seps: "CHR ''/'' \<notin> set (ys @ ''_'' @ h)"
        using ys nodot False nosep by simp_all
      have "splitext (xs @ CHR ''.'' # (ys @ ''_'' @ h)) = (xs @ CHR ''.'' # (ys @ ''_'' @ h), [])"
        using splitext_dot_after_sep [OF dots seps, of xs] nostem by auto
      with old nostem p show ?thesis by (auto simp: new_name_def)
    qed
  qed
qed

lemma hex_no_dot_sep:
  assumes "list_all is_hex_char h"
  shows "CHR ''.'' \<notin> set h \<and> CHR ''/'' \<notin> set h"
proof -
  have "\<not> is_hex_char CHR ''.''" and "\<not> is_hex_char CHR ''/''"
    by (simp_all add: is_hex_char_def)
  with assms show ?thesis
    unfolding list_all_iff by blast
qed

lemma splitext_renamed:
  "splitext (new_name (content_hash c) p)
     = (fst (splitext p) @ ''_'' @ content_hash c, snd (splitext p))"
proof -
  have "list_all is_hex_char (content_hash c)"
    by (simp add: content_hash_shape)
  then have "CHR ''.'' \<notin> set (content_hash c)" and "CHR ''/'' \<notin> set (content_hash c)"
    using hex_no_dot_sep by blast+
  then show ?thesis by (rule splitext_new_name)
qed

lemma rename_targets_ok:
  "\<forall>t\<in>set target. kind t = File \<or> kind t = Dir \<Longrightarrow>
   rename_targets hash_str target
     = Inr (map (\<lambda>t. \<lparr>kind = kind t, abspath = new_name hash_str (abspath t)\<rparr>) target)"
  by (induction target) (auto simp: rename_target_def)

lemma write_logs_other:
  "p \<notin> log_name ` set ts \<Longrightarrow> write_logs c ts fs p = fs p"
  unfolding write_logs_def by (induction ts arbitrary: fs) auto

lemma write_logs_at:
  "t \<in> set ts \<Longrightarrow>
   write_logs c ts fs (log_name t) = Some (str_replace '' --'' (CHR 0x0A # ''  --'') c)"
  unfolding write_logs_def
proof (induction ts arbitrary: fs rule: rev_induct)
  case Nil
  then show ?case by simp
next
  case (snoc x xs)
  then show ?case by (cases "log_name x = log_name t") auto
qed

lemma emitter_ok:
  assumes kinds: "\<forall>t\<in>set target. kind t = File \<or> kind t = Dir"
    and new: "new_targets = map (\<lambda>t. \<lparr>kind = kind t,
                abspath = new_name (content_hash (get_contents target source env)) (abspath t)\<rparr>) target"
    and decoded: "decode (get_contents new_targets source env) = Inr new_command"
  shows "emitter script get_contents other_deps target source env w =
           (Inr (new_targets, source),
            w\<lparr>files := write_logs new_command new_targets (files w),
              depends := depends w @
                concat (map (\<lambda>t. map (\<lambda>s. (t, s)) (other_deps @ [script])) new_targets)\<rparr>)"
  using rename_targets_ok [OF kinds, of "content_hash (get_contents target source env)"] new decoded
  by (simp add: emitter_def Let_def)

lemma decode_same: "decode s = Inr c \<Longrightarrow> c = s"
  by (auto simp: decode_def split: if_splits)

lemma md5_demo_command: "md5_hexdigest ''run --x 1'' = ''d9fb6462cd3056200acc12641bbf7b3b''"
  by code_simp

lemma content_hash_run: "content_hash ''run --x 1'' = ''d9fb6462''"
  by (simp add: content_hash_def md5_demo_command)

lemma demo_content_hash: "content_hash (demo_contents target source env) = ''d9fb6462''"
  by (simp add: demo_contents_def content_hash_run)

lemma splitext_out_txt: "splitext ''/w/out.txt'' = (''/w/out'', ''.txt'')"
  by code_simp

lemma splitext_out_d: "splitext ''/w/out.d'' = (''/w/out'', ''.d'')"
  by code_simp

lemma splitext_new_out_txt: "splitext ''/w/out_d9fb6462.txt'' = (''/w/out_d9fb6462'', ''.txt'')"
  by code_simp

lemma splitext_new_out_d: "splitext ''/w/out_d9fb6462.d'' = (''/w/out_d9fb6462'', ''.d'')"
  by code_simp

lemma replace_demo_command:
  "str_replace '' --'' (CHR 0x0A # ''  --'') ''run --x 1'' = ''run'' @ [CHR 0x0A] @ ''  --x 1''"
  by code_simp

lemma decode_demo_command: "decode (demo_contents target source env) = Inr ''run --x 1''"
  by (simp add: decode_def demo_contents_def)


lemma demo_emitter_file:
  "emitter ''s.py'' demo_contents [] [out_txt] [in_txt] demo_env start_world
     = (Inr ([\<lparr>kind = File, abspath = ''/w/out_d9fb6462.txt''\<rparr>], [in_txt]),
        start_world\<lparr>files := [''/w/out_d9fb6462_txt.command'' \<mapsto> ''run'' @ [CHR 0x0A] @ ''  --x 1''],
                     depends := [(\<lparr>kind = File, abspath = ''/w/out_d9fb6462.txt''\<rparr>, ''s.py'')]\<rparr>)"
proof -
  have "emitter ''s.py'' demo_contents [] [out_txt] [in_txt] demo_env start_world
     = (Inr ([\<lparr>kind = File, abspath = ''/w/out_d9fb6462.txt''\<rparr>], [in_txt]),
        start_world\<lparr>files := write_logs ''run --x 1''
                       [\<lparr>kind = File, abspath = ''/w/out_d9fb6462.txt''\<rparr>] (files start_world),
          depends := depends start_world @
            concat (map (\<lambda>t. map (\<lambda>s. (t, s)) ([] @ [''s.py'']))
                      [\<lparr>kind = File, abspath = ''/w/out_d9fb6462.txt''\<rparr>])\<rparr>)"
    by (rule emitter_ok)
      (simp_all add: out_txt_def demo_content_hash new_name_def splitext_out_txt decode_demo_command)
  then show ?thesis
    by (simp add: write_logs_def log_name_def splitext_new_out_txt lstrip_dot_def
        replace_demo_command start_world_def)
qed

lemma demo_emitter_dir:
  "fst (emitter ''s.py'' demo_contents [] [out_d] [in_txt] demo_env start_world)
     = Inr ([\<lparr>kind = Dir, abspath = ''/w/out_d9fb6462.d''\<rparr>], [in_txt])"
proof -
  have "emitter ''s.py'' demo_contents [] [out_d] [in_txt] demo_env start_world
     = (Inr ([\<lparr>kind = Dir, abspath = ''/w/out_d9fb6462.d''\<rparr>], [in_txt]),
        start_world\<lparr>files := write_logs ''run --x 1''
                       [\<lparr>kind = Dir, abspath = ''/w/out_d9fb6462.d''\<rparr>] (files start_world),
          depends := depends start_world @
            concat (map (\<lambda>t. map (\<lambda>s. (t, s)) ([] @ [''s.py'']))
                      [\<lparr>kind = Dir, abspath = ''/w/out_d9fb6462.d''\<rparr>])\<rparr>)"
    by (rule emitter_ok)
      (simp_all add: out_d_def demo_content_hash new_name_def splitext_out_d decode_demo_command)
  then show ?thesis by simp
qed

text \<open>
  Claim C1, as the code has it. For a rule whose nominal targets are files and
  directories, the discriminator is the first 8 characters of the MD5 hex digest of the
  command text rendered against the nominal targets: 8 hexadecimal characters. Every
  nominal target is replaced by a node of the same kind whose path is the original
  path with an underscore and the discriminator inserted before the extension that
  \<open>os.path.splitext\<close> finds, for files and for directories alike (for a path without
  extension this appends them). The sources are returned unchanged. The renamed paths
  are a function of the command text and the nominal paths only: any other call of the
  emitter with the same command text for the same nominal targets returns the same
  renamed targets.
\<close>

theorem emitter_renames_by_content:
  assumes kinds: "\<forall>t\<in>set target. kind t = File \<or> kind t = Dir"
    and new: "new_targets = map (\<lambda>t. \<lparr>kind = kind t,
                abspath = fst (splitext (abspath t)) @ ''_''
                          @ content_hash (get_contents target source env)
                          @ snd (splitext (abspath t))\<rparr>) target"
    and decoded: "decode (get_contents new_targets source env) = Inr new_command"
  shows "length (content_hash (get_contents target source env)) = 8
    \<and> list_all is_hex_char (content_hash (get_contents target source env))
    \<and> content_hash (get_contents target source env)
        = take 8 (md5_hexdigest (get_contents target source env))
    \<and> fst (emitter script get_contents other_deps target source env w) = Inr (new_targets, source)
    \<and> (\<forall>script' get_contents' other_deps' source' env' w' r.
          get_contents' target source' env' = get_contents target source env
          \<and> fst (emitter script' get_contents' other_deps' target source' env' w') = Inr r
          \<longrightarrow> fst r = new_targets)"
proof -
  let ?h = "content_hash (get_contents target source env)"
  have new': "new_targets = map (\<lambda>t. \<lparr>kind = kind t, abspath = new_name ?h (abspath t)\<rparr>) target"
    using new by (simp add: new_name_def split_beta)
  have renamed: "rename_targets ?h target = Inr new_targets"
    using rename_targets_ok [OF kinds, of ?h] new' by simp
  have len: "length ?h = 8" and hex: "list_all is_hex_char ?h"
    using content_hash_shape [of "get_contents target source env"] by simp_all
  have prefix: "?h = take 8 (md5_hexdigest (get_contents target source env))"
    by (simp only: content_hash_def)
  have result: "fst (emitter script get_contents other_deps target source env w)
                  = Inr (new_targets, source)"
    using renamed decoded by (simp add: emitter_def Let_def)
  have same: "\<forall>script' get_contents' other_deps' source' env' w' r.
          get_contents' target source' env' = get_contents target source env
          \<and> fst (emitter script' get_contents' other_deps' target source' env' w') = Inr r
          \<longrightarrow> fst r = new_targets"
  proof (intro allI impI, elim conjE)
    fix script' :: string and get_contents' other_deps' source' env' w' r
    assume same_text: "get_contents' target source' env' = get_contents target source env"
      and ok: "fst (emitter script' get_contents' other_deps' target source' env' w') = Inr r"
    from ok same_text renamed show "fst r = new_targets"
      by (auto simp: emitter_def Let_def split: sum.splits)
  qed
  show ?thesis by (intro conjI len hex prefix result same)
qed


theorem emitter_renames_by_content_witness:
  "fst (emitter ''s.py'' demo_contents [] [out_txt, out_d] [in_txt] demo_env start_world)
     = Inr ([\<lparr>kind = File, abspath = ''/w/out_d9fb6462.txt''\<rparr>,
             \<lparr>kind = Dir, abspath = ''/w/out_d9fb6462.d''\<rparr>], [in_txt])"
  using emitter_renames_by_content [where target = "[out_txt, out_d]"
      and new_targets = "[\<lparr>kind = File, abspath = ''/w/out_d9fb6462.txt''\<rparr>,
                          \<lparr>kind = Dir, abspath = ''/w/out_d9fb6462.d''\<rparr>]"
      and get_contents = demo_contents and source = "[in_txt]" and env = demo_env
      and new_command = "''run --x 1''" and script = "''s.py''" and other_deps = "[]"
      and w = start_world]
  by (simp add: out_txt_def out_d_def demo_content_hash splitext_out_txt splitext_out_d
      decode_demo_command)

text \<open>
  A directory whose name has an extension: the discriminator goes before the extension,
  it is not appended to the path.
\<close>

theorem directory_discriminator_before_extension:
  "fst (emitter ''s.py'' demo_contents [] [out_d] [in_txt] demo_env start_world)
     = Inr ([\<lparr>kind = Dir, abspath = ''/w/out_d9fb6462.d''\<rparr>], [in_txt])
   \<and> fst (emitter ''s.py'' demo_contents [] [out_d] [in_txt] demo_env start_world)
     \<noteq> Inr ([\<lparr>kind = Dir, abspath = abspath out_d @ ''_d9fb6462''\<rparr>], [in_txt])"
  using demo_emitter_dir by (simp add: out_d_def)

text \<open>
  Claim C2, as the code has it. For every renamed target the emitter writes the command
  text, rendered again against the renamed targets and with every \<open>" --"\<close> replaced by
  a newline, two spaces and \<open>"--"\<close>, to the log file whose path is the path of the
  renamed target without its extension, an underscore, the extension without its dot,
  and \<open>.command\<close>. The renamed target keeps the extension of the nominal target, so
  with \<open>base\<close> and \<open>.ext\<close> the two parts of the nominal path and \<open>H\<close> the
  discriminator, the renamed target is \<open>base_H.ext\<close> and its log file is
  \<open>base_H_ext.command\<close>. No other file changes, and no tag and no counter.
\<close>

theorem emitter_writes_command_logs:
  assumes kinds: "\<forall>t\<in>set target. kind t = File \<or> kind t = Dir"
    and new: "new_targets = map (\<lambda>t. \<lparr>kind = kind t,
                abspath = fst (splitext (abspath t)) @ ''_''
                          @ content_hash (get_contents target source env)
                          @ snd (splitext (abspath t))\<rparr>) target"
    and decoded: "decode (get_contents new_targets source env) = Inr new_command"
    and after: "w' = snd (emitter script get_contents other_deps target source env w)"
  shows "(\<forall>t\<in>set target.
            files w' (fst (splitext (abspath t)) @ ''_''
                      @ content_hash (get_contents target source env) @ ''_''
                      @ lstrip_dot (snd (splitext (abspath t))) @ ''.command'')
              = Some (str_replace '' --'' (CHR 0x0A # ''  --'') (get_contents new_targets source env)))
    \<and> (\<forall>t\<in>set new_targets.
            files w' (fst (splitext (abspath t)) @ ''_'' @ lstrip_dot (snd (splitext (abspath t)))
                      @ ''.command'')
              = Some (str_replace '' --'' (CHR 0x0A # ''  --'') (get_contents new_targets source env)))
    \<and> (\<forall>p. p \<notin> log_name ` set new_targets \<longrightarrow> files w' p = files w p)
    \<and> (\<forall>t. log_name t = fst (splitext (abspath t)) @ ''_'' @ lstrip_dot (snd (splitext (abspath t)))
                      @ ''.command'')
    \<and> tags w' = tags w \<and> inst_pseudo_id w' = inst_pseudo_id w"
proof -
  let ?h = "content_hash (get_contents target source env)"
  let ?log = "Some (str_replace '' --'' (CHR 0x0A # ''  --'') (get_contents new_targets source env))"
  have new': "new_targets = map (\<lambda>t. \<lparr>kind = kind t, abspath = new_name ?h (abspath t)\<rparr>) target"
    using new by (simp add: new_name_def split_beta)
  have w': "w' = w\<lparr>files := write_logs new_command new_targets (files w),
                   depends := depends w @
                     concat (map (\<lambda>t. map (\<lambda>s. (t, s)) (other_deps @ [script])) new_targets)\<rparr>"
    using emitter_ok [where target = target and get_contents = get_contents and source = source
        and env = env, OF kinds new' decoded] after by simp
  have same: "new_command = get_contents new_targets source env"
    using decoded by (rule decode_same)
  have name: "\<forall>t. log_name t = fst (splitext (abspath t)) @ ''_''
                  @ lstrip_dot (snd (splitext (abspath t))) @ ''.command''"
    by (simp add: log_name_def split_beta)
  have at_log: "files w' (log_name t) = ?log" if "t \<in> set new_targets" for t
  proof -
    from that have "write_logs new_command new_targets (files w) (log_name t)
                 = Some (str_replace '' --'' (CHR 0x0A # ''  --'') new_command)"
      by (rule write_logs_at)
    then show ?thesis using w' same by simp
  qed
  have written: "\<forall>t\<in>set new_targets.
            files w' (fst (splitext (abspath t)) @ ''_'' @ lstrip_dot (snd (splitext (abspath t)))
                      @ ''.command'') = ?log"
    using at_log name by simp
  have nominal: "\<forall>t\<in>set target.
            files w' (fst (splitext (abspath t)) @ ''_'' @ ?h @ ''_''
                      @ lstrip_dot (snd (splitext (abspath t))) @ ''.command'') = ?log"
  proof
    fix t assume t: "t \<in> set target"
    let ?t' = "\<lparr>kind = kind t, abspath = new_name ?h (abspath t)\<rparr>"
    from t have "?t' \<in> set new_targets" by (auto simp: new')
    then have "files w' (log_name ?t') = ?log" by (rule at_log)
    moreover have "log_name ?t' = fst (splitext (abspath t)) @ ''_'' @ ?h @ ''_''
                      @ lstrip_dot (snd (splitext (abspath t))) @ ''.command''"
      by (simp add: log_name_def splitext_renamed)
    ultimately show "files w' (fst (splitext (abspath t)) @ ''_'' @ ?h @ ''_''
                      @ lstrip_dot (snd (splitext (abspath t))) @ ''.command'') = ?log"
      by simp
  qed
  have others: "\<forall>p. p \<notin> log_name ` set new_targets \<longrightarrow> files w' p = files w p"
    using w' by (simp add: write_logs_other)
  have rest: "tags w' = tags w \<and> inst_pseudo_id w' = inst_pseudo_id w"
    using w' by simp
  show ?thesis
    by (intro conjI nominal written others name rest [THEN conjunct1] rest [THEN conjunct2])
qed

theorem emitter_writes_command_logs_witness:
  "files (snd (emitter ''s.py'' demo_contents [] [out_txt] [in_txt] demo_env start_world))
     ''/w/out_d9fb6462_txt.command'' = Some (''run'' @ [CHR 0x0A] @ ''  --x 1'')"
  using emitter_writes_command_logs [where target = "[out_txt]"
      and new_targets = "[\<lparr>kind = File, abspath = ''/w/out_d9fb6462.txt''\<rparr>]"
      and get_contents = demo_contents and source = "[in_txt]" and env = demo_env
      and new_command = "''run --x 1''" and script = "''s.py''" and other_deps = "[]"
      and w = start_world, OF _ _ _ refl]
  by (simp add: out_txt_def content_hash_run splitext_out_txt splitext_new_out_txt
      decode_demo_command [unfolded demo_contents_def] lstrip_dot_def replace_demo_command
      demo_contents_def)

text \<open>
  The target \<open>/w/out.txt\<close> with the command text \<open>run --x 1\<close>: the renamed target is
  \<open>/w/out_d9fb6462.txt\<close> and the log file is \<open>/w/out_d9fb6462_txt.command\<close>. No
  file is written at \<open>/w/out_txt.command\<close>, nor at a path where \<open>.command\<close>
  replaces the extension.
\<close>

theorem log_path_keeps_discriminator:
  "fst (emitter ''s.py'' demo_contents [] [out_txt] [in_txt] demo_env start_world)
     = Inr ([\<lparr>kind = File, abspath = ''/w/out_d9fb6462.txt''\<rparr>], [in_txt])
   \<and> files (snd (emitter ''s.py'' demo_contents [] [out_txt] [in_txt] demo_env start_world))
       ''/w/out_d9fb6462_txt.command'' = Some (''run'' @ [CHR 0x0A] @ ''  --x 1'')
   \<and> files (snd (emitter ''s.py'' demo_contents [] [out_txt] [in_txt] demo_env start_world))
       ''/w/out_txt.command'' = None
   \<and> files (snd (emitter ''s.py'' demo_contents [] [out_txt] [in_txt] demo_env start_world))
       ''/w/out.command'' = None
   \<and> files (snd (emitter ''s.py'' demo_contents [] [out_txt] [in_txt] demo_env start_world))
       ''/w/out_d9fb6462.command'' = None"
  by (simp add: demo_emitter_file)

end
